theory Spec2Isabelle
  imports Complex_Main "HOL-Library.Word"
begin

section \<open>Python strings and bytes\<close>

text \<open>
  A Python \<open>str\<close> is a sequence of Unicode code points; it is modelled as the list of
  its code points, so that the Cyrillic labels of the source and \<open>str.strip\<close> (which
  removes Unicode whitespace) are what they are in Python. \<open>bytes\<close> is a list of
  octets. \<open>ascii\<close> reads an ASCII literal as a \<open>str\<close>.
\<close>

type_synonym pystr = "nat list"

type_synonym bytes = "8 word list"

definition ascii :: "string \<Rightarrow> pystr" where
  "ascii s = map of_char s"

text \<open>The code points for which \<open>str.isspace\<close> holds; \<open>str.strip()\<close> removes them.\<close>

definition isspace :: "nat \<Rightarrow> bool" where
  "isspace c = ((9 \<le> c \<and> c \<le> 13) \<or> (28 \<le> c \<and> c \<le> 32) \<or> c = 133 \<or> c = 160
     \<or> c = 5760 \<or> (8192 \<le> c \<and> c \<le> 8202) \<or> c = 8232 \<or> c = 8233 \<or> c = 8239
     \<or> c = 8287 \<or> c = 12288)"

definition strip :: "pystr \<Rightarrow> pystr" where
  "strip s = rev (dropWhile isspace (rev (dropWhile isspace s)))"

fun startswith :: "pystr \<Rightarrow> pystr \<Rightarrow> bool" where
  "startswith s [] = True"
| "startswith [] (p # ps) = False"
| "startswith (c # cs) (p # ps) = (c = p \<and> startswith cs ps)"

text \<open>\<open>sep.join(xs)\<close> for a list of \<open>str\<close>.\<close>

fun join :: "pystr \<Rightarrow> pystr list \<Rightarrow> pystr" where
  "join sep [] = []"
| "join sep [x] = x"
| "join sep (x # y # ys) = x @ sep @ join sep (y # ys)"

section \<open>The XML tree (xml.etree.ElementTree)\<close>

text \<open>
  An \<open>Element\<close> with the fields the source reads: its tag (in the \<open>{uri}local\<close>
  form ElementTree stores), its attributes, its text (\<open>None\<close> when absent) and its
  children in document order.
\<close>

datatype xml = Element (tag: pystr) (attrib: "(pystr \<times> pystr) list")
  (etext: "pystr option") (children: "xml list")

text \<open>\<open>Element.iter()\<close>: the element and all its descendants, in document order.\<close>

fun iter :: "xml \<Rightarrow> xml list" where
  "iter (Element t a x cs) = Element t a x cs # concat (map iter cs)"

text \<open>
  \<open>elem.findall('.//tag')\<close>: every descendant of \<open>elem\<close> (not \<open>elem\<close> itself) with
  that tag, in document order; \<open>elem.find('.//tag')\<close>: the first of them, or \<open>None\<close>;
  \<open>elem.get(key)\<close>: the attribute, or \<open>None\<close>.
\<close>

definition findall :: "pystr \<Rightarrow> xml \<Rightarrow> xml list" where
  "findall tg e = filter (\<lambda>x. tag x = tg) (concat (map iter (children e)))"

definition find_first :: "pystr \<Rightarrow> xml \<Rightarrow> xml option" where
  "find_first tg e = (case findall tg e of [] \<Rightarrow> None | x # _ \<Rightarrow> Some x)"

definition get_attr :: "xml \<Rightarrow> pystr \<Rightarrow> pystr option" where
  "get_attr e k = map_of (attrib e) k"

text \<open>The qualified names the source looks for, with their namespace prefixes resolved.\<close>

definition w_p :: pystr where
  "w_p = ascii ''{http://schemas.openxmlformats.org/wordprocessingml/2006/main}p''"

definition w_t :: pystr where
  "w_t = ascii ''{http://schemas.openxmlformats.org/wordprocessingml/2006/main}t''"

definition w_drawing :: pystr where
  "w_drawing = ascii ''{http://schemas.openxmlformats.org/wordprocessingml/2006/main}drawing''"

definition a_blip :: pystr where
  "a_blip = ascii ''{http://schemas.openxmlformats.org/drawingml/2006/main}blip''"

definition r_embed_key :: pystr where
  "r_embed_key = ascii ''{http://schemas.openxmlformats.org/officeDocument/2006/relationships}embed''"

definition r_Relationship :: pystr where
  "r_Relationship = ascii ''{http://schemas.openxmlformats.org/package/2006/relationships}Relationship''"

section \<open>The package (zipfile.ZipFile)\<close>

text \<open>
  An opened archive is the list of its members, name and content, in archive order.
  \<open>namelist()\<close> lists the names; \<open>read(name)\<close> returns the content of the last member
  of that name and raises \<open>KeyError\<close> when there is none.
\<close>

type_synonym zipfile = "(pystr \<times> bytes) list"

definition namelist :: "zipfile \<Rightarrow> pystr list" where
  "namelist z = map fst z"

definition zip_read :: "zipfile \<Rightarrow> pystr \<Rightarrow> bytes option" where
  "zip_read z name = map_of (rev z) name"

datatype error = KeyError pystr | IndexError | TypeError | ParseError | DocxError
  | RequestException pystr | FileNotFoundError | BadZipFile

text \<open>
  What the source takes from its libraries and its environment: whether python-docx
  was imported (\<open>HAS_DOCX\<close>), whether \<open>Document(docx_path)\<close> opens the package without
  raising, and \<open>ET.fromstring\<close>, which returns the root of a well-formed part and
  raises \<open>ParseError\<close> (here \<open>None\<close>) on a malformed one.
\<close>

record lib =
  HAS_DOCX :: bool
  Document :: "zipfile \<Rightarrow> bool"
  fromstring :: "bytes \<Rightarrow> xml option"

text \<open>\<open>ET.fromstring(zip_ref.read(name))\<close>, with both ways it raises.\<close>

definition read_xml :: "lib \<Rightarrow> zipfile \<Rightarrow> pystr \<Rightarrow> error + xml" where
  "read_xml l z name =
     (case zip_read z name of
        None \<Rightarrow> Inl (KeyError name)
      | Some data \<Rightarrow>
          (case fromstring l data of None \<Rightarrow> Inl ParseError | Some tree \<Rightarrow> Inr tree))"

definition document_xml_name :: pystr where
  "document_xml_name = ascii ''word/document.xml''"

definition rels_xml_name :: pystr where
  "rels_xml_name = ascii ''word/_rels/document.xml.rels''"

section \<open>extract_images_from_docx\<close>

type_synonym media = "pystr \<rightharpoonup> bytes"

definition extract_images_from_docx :: "zipfile \<Rightarrow> media" where
  "extract_images_from_docx z =
     fold (\<lambda>file_info images.
             if startswith file_info (ascii ''word/media/'')
             then images(file_info := zip_read z file_info) else images)
          (namelist z) Map.empty"

section \<open>parse_docx_structure\<close>

datatype element = Text pystr | ImageRef pystr

type_synonym rel_table = "pystr option \<rightharpoonup> pystr"

text \<open>
  The state of the loop over one paragraph: the element list built so far, and the
  paragraph's \<open>image_found\<close> and \<open>text_parts\<close>.
\<close>

record pstate =
  elements :: "element list"
  image_found :: bool
  text_parts :: "pystr list"

text \<open>
  The statement that occurs four times in the source:
  \<^verbatim>\<open>text_content = ''.join(text_parts).strip()\<close>,
  \<^verbatim>\<open>if text_content: elements.append(('text', text_content))\<close>.
\<close>

definition append_text :: "element list \<Rightarrow> pystr list \<Rightarrow> element list" where
  "append_text els parts =
     (let text_content = strip (concat parts)
      in if text_content \<noteq> [] then els @ [Text text_content] else els)"

text \<open>The \<open>w:t\<close> texts of a paragraph that are neither \<open>None\<close> nor empty.\<close>

definition collect_text :: "xml \<Rightarrow> pystr list" where
  "collect_text paragraph =
     List.map_filter (\<lambda>t. case etext t of None \<Rightarrow> None
                          | Some s \<Rightarrow> if s \<noteq> [] then Some s else None)
       (findall w_t paragraph)"

subsection \<open>The primary strategy (lines 118 to 185)\<close>

definition primary_rel_to_image :: "xml \<Rightarrow> rel_table" where
  "primary_rel_to_image rels_root =
     fold (\<lambda>rel rel_to_image.
             (let target = (case get_attr rel (ascii ''Target'') of None \<Rightarrow> [] | Some t \<Rightarrow> t)
              in if startswith target (ascii ''media/'')
                 then rel_to_image(get_attr rel (ascii ''Id'') \<mapsto> ascii ''word/'' @ target)
                 else rel_to_image))
          (findall r_Relationship rels_root) Map.empty"

text \<open>
  The loop over the drawings of a paragraph, which stops (\<open>break\<close>) at the first
  drawing whose first blip has a non-empty \<open>r:embed\<close> that the relationship table maps
  to a key of the media store. The test \<open>r_embed in rel_to_image\<close> and the lookup
  \<open>rel_to_image[r_embed]\<close> that follows it are one \<open>case\<close> on the table.
\<close>

fun primary_drawings :: "rel_table \<Rightarrow> media \<Rightarrow> xml list \<Rightarrow> pstate \<Rightarrow> pstate" where
  "primary_drawings rel_to_image images [] st = st"
| "primary_drawings rel_to_image images (drawing # rest) st =
     (case find_first a_blip drawing of
        None \<Rightarrow> primary_drawings rel_to_image images rest st
      | Some blip \<Rightarrow>
          (case get_attr blip r_embed_key of
             None \<Rightarrow> primary_drawings rel_to_image images rest st
           | Some r_embed \<Rightarrow>
               if r_embed \<noteq> [] then
                 (case rel_to_image (Some r_embed) of
                    None \<Rightarrow> primary_drawings rel_to_image images rest st
                  | Some image_path \<Rightarrow>
                      if images image_path \<noteq> None then
                        st\<lparr>elements :=
                             (if text_parts st \<noteq> []
                              then append_text (elements st) (text_parts st)
                              else elements st) @ [ImageRef image_path],
                           image_found := True,
                           text_parts := []\<rparr>
                      else primary_drawings rel_to_image images rest st)
               else primary_drawings rel_to_image images rest st))"

definition primary_paragraph :: "rel_table \<Rightarrow> media \<Rightarrow> xml \<Rightarrow> element list \<Rightarrow> element list" where
  "primary_paragraph rel_to_image images paragraph els =
     (let drawings = findall w_drawing paragraph;
          st0 = \<lparr>elements = els, image_found = False, text_parts = collect_text paragraph\<rparr>;
          st = (if drawings \<noteq> [] then primary_drawings rel_to_image images drawings st0 else st0)
      in if \<not> image_found st \<and> text_parts st \<noteq> []
         then append_text (elements st) (text_parts st)
         else elements st)"

text \<open>
  Everything that can raise inside the \<open>try\<close> block raises before the first element is
  appended, so the block either fails with the element list still empty or returns
  the elements of all paragraphs.
\<close>

definition primary_strategy :: "lib \<Rightarrow> zipfile \<Rightarrow> media \<Rightarrow> error + element list" where
  "primary_strategy l z images =
     (if \<not> Document l z then Inl DocxError
      else case read_xml l z rels_xml_name of
        Inl e \<Rightarrow> Inl e
      | Inr rels_root \<Rightarrow>
          (let rel_to_image = primary_rel_to_image rels_root
           in case read_xml l z document_xml_name of
                Inl e \<Rightarrow> Inl e
              | Inr doc_root \<Rightarrow>
                  Inr (fold (primary_paragraph rel_to_image images) (findall w_p doc_root) [])))"

subsection \<open>The fallback strategy (lines 187 to 244)\<close>

text \<open>
  The fallback appends to the element list the function holds when it gets there,
  which is the empty list: it is reached at once, or after the \<open>try\<close> block failed
  before its first \<open>append\<close>. Reading or parsing the main document part raises to the
  caller; reading or parsing the relationships part is caught and gives the empty
  table.
\<close>

definition fallback_rel_to_image :: "lib \<Rightarrow> zipfile \<Rightarrow> rel_table" where
  "fallback_rel_to_image l z =
     (case read_xml l z rels_xml_name of
        Inl e \<Rightarrow> Map.empty
      | Inr rels_root \<Rightarrow>
          fold (\<lambda>rel rel_to_image.
                  (let target = (case get_attr rel (ascii ''Target'') of None \<Rightarrow> [] | Some t \<Rightarrow> t)
                   in if startswith target (ascii ''media/'')
                      then rel_to_image(get_attr rel (ascii ''Id'') \<mapsto> ascii ''word/'' @ target)
                      else rel_to_image))
               (findall r_Relationship rels_root) Map.empty)"

fun fallback_drawings :: "rel_table \<Rightarrow> media \<Rightarrow> xml list \<Rightarrow> pstate \<Rightarrow> pstate" where
  "fallback_drawings rel_to_image images [] st = st"
| "fallback_drawings rel_to_image images (drawing # rest) st =
     (case find_first a_blip drawing of
        None \<Rightarrow> fallback_drawings rel_to_image images rest st
      | Some blip \<Rightarrow>
          (case get_attr blip r_embed_key of
             None \<Rightarrow> fallback_drawings rel_to_image images rest st
           | Some r_embed \<Rightarrow>
               if r_embed \<noteq> [] then
                 (case rel_to_image (Some r_embed) of
                    None \<Rightarrow> fallback_drawings rel_to_image images rest st
                  | Some image_path \<Rightarrow>
                      if images image_path \<noteq> None then
                        st\<lparr>elements :=
                             (if text_parts st \<noteq> []
                              then append_text (elements st) (text_parts st)
                              else elements st) @ [ImageRef image_path],
                           image_found := True,
                           text_parts := []\<rparr>
                      else fallback_drawings rel_to_image images rest st)
               else fallback_drawings rel_to_image images rest st))"

definition fallback_paragraph :: "rel_table \<Rightarrow> media \<Rightarrow> xml \<Rightarrow> element list \<Rightarrow> element list" where
  "fallback_paragraph rel_to_image images paragraph els =
     (let drawings = findall w_drawing paragraph;
          st0 = \<lparr>elements = els, image_found = False, text_parts = collect_text paragraph\<rparr>;
          st = (if drawings \<noteq> [] then fallback_drawings rel_to_image images drawings st0 else st0)
      in if \<not> image_found st \<and> text_parts st \<noteq> []
         then append_text (elements st) (text_parts st)
         else elements st)"

definition fallback_strategy :: "lib \<Rightarrow> zipfile \<Rightarrow> media \<Rightarrow> element list \<Rightarrow> error + element list" where
  "fallback_strategy l z images els =
     (case read_xml l z document_xml_name of
        Inl e \<Rightarrow> Inl e
      | Inr doc_root \<Rightarrow>
          (let rel_to_image = fallback_rel_to_image l z
           in Inr (fold (fallback_paragraph rel_to_image images) (findall w_p doc_root) els)))"

subsection \<open>The function\<close>

definition parse_docx_structure :: "lib \<Rightarrow> zipfile \<Rightarrow> error + (element list \<times> media)" where
  "parse_docx_structure l z =
     (let images = extract_images_from_docx z;
          fallback = (case fallback_strategy l z images [] of
                        Inl e \<Rightarrow> Inl e
                      | Inr els \<Rightarrow> Inr (els, images))
      in if HAS_DOCX l then
           (case primary_strategy l z images of
              Inr els \<Rightarrow> Inr (els, images)
            | Inl e \<Rightarrow> fallback)
         else fallback)"

text \<open>
  What one paragraph adds to the element list: the loop body run on an empty list.
  (\<open>primary_paragraph_eq\<close> and \<open>fallback_paragraph_eq\<close> below show that on any list
  both loop bodies append exactly these elements.)
\<close>

definition paragraph_elements :: "rel_table \<Rightarrow> media \<Rightarrow> xml \<Rightarrow> element list" where
  "paragraph_elements rel_to_image images p = primary_paragraph rel_to_image images p []"

subsection \<open>Vocabulary of the specification\<close>

text \<open>
  The notions the specification uses to describe the extractor, written after its
  words: the \<open>Text\<close> element for the trimmed text of a paragraph (none when the trimmed
  text is empty), an \<open>ImageRef\<close> element, and the path a drawing anchor resolves to:
  the anchor's embedded relationship id, looked up in the relationship table, when that
  path is a key of the media store.
\<close>

definition paragraph_text :: "xml \<Rightarrow> element list" where
  "paragraph_text p =
     (let t = strip (concat (collect_text p)) in if t \<noteq> [] then [Text t] else [])"

definition is_image :: "element \<Rightarrow> bool" where
  "is_image e = (case e of ImageRef _ \<Rightarrow> True | Text _ \<Rightarrow> False)"

definition anchor_path :: "rel_table \<Rightarrow> media \<Rightarrow> xml \<Rightarrow> pystr option" where
  "anchor_path rel_to_image images drawing =
     (case find_first a_blip drawing of
        None \<Rightarrow> None
      | Some blip \<Rightarrow>
          (case get_attr blip r_embed_key of
             None \<Rightarrow> None
           | Some r_embed \<Rightarrow>
               (case rel_to_image (Some r_embed) of
                  None \<Rightarrow> None
                | Some image_path \<Rightarrow>
                    if r_embed \<noteq> [] \<and> images image_path \<noteq> None
                    then Some image_path else None)))"

section \<open>Python objects\<close>

text \<open>
  The objects a JSON body decodes to; the description that \<open>analyze_image_with_api\<close>
  returns is one of them, a \<open>str\<close> or not. A \<open>dict\<close> is the list of its items, whose
  keys are distinct.
\<close>

datatype pyval = PyNone | PyBool bool | PyInt int | PyFloat real | PyStr pystr
  | PyList "pyval list" | PyDict "(pystr \<times> pyval) list"

section \<open>convert_docx_to_txt\<close>

text \<open>
  \<open>Path(content).name\<close> on a POSIX path: the last component, where empty components
  and \<open>.\<close> are dropped, and the empty string when no component is left.
\<close>

fun split_on :: "nat \<Rightarrow> pystr \<Rightarrow> pystr list" where
  "split_on sep [] = [[]]"
| "split_on sep (c # cs) =
     (if c = sep then [] # split_on sep cs
      else (case split_on sep cs of [] \<Rightarrow> [[c]] | w # ws \<Rightarrow> (c # w) # ws))"

definition path_name :: "pystr \<Rightarrow> pystr" where
  "path_name p =
     (let parts = filter (\<lambda>x. x \<noteq> [] \<and> x \<noteq> ascii ''.'') (split_on 47 p)
      in if parts = [] then [] else last parts)"

text \<open>The decimal digits of the counter, as the f-string formats it.\<close>

fun str_nat :: "nat \<Rightarrow> pystr" where
  "str_nat n = (if n < 10 then [48 + n] else str_nat (n div 10) @ [48 + n mod 10])"

declare str_nat.simps [simp del]

text \<open>
  The Cyrillic words of the two labels, by code point: the upper-case word for
  "image" that opens every image block, and the words for "not found".
\<close>

definition IZOBRAZHENIE :: pystr where
  "IZOBRAZHENIE = [1048, 1047, 1054, 1041, 1056, 1040, 1046, 1045, 1053, 1048, 1045]"

definition ne_naideno :: pystr where
  "ne_naideno = [1085, 1077, 32, 1085, 1072, 1081, 1076, 1077, 1085, 1086]"

text \<open>
  The description provider: the callable bound to \<open>analyze_image_with_api\<close> when the
  renderer runs, from the image bytes and the display name to the object it returns.
\<close>

type_synonym describe = "bytes \<Rightarrow> pystr \<Rightarrow> pyval"

text \<open>
  The state of the rendering loop: \<open>result_lines\<close>, \<open>image_count\<close>, and the calls made
  to the provider so far (an effect of the loop, recorded so that claims about
  invoking the provider can be stated).
\<close>

record rstate =
  result_lines :: "pyval list"
  image_count :: nat
  calls :: "(bytes \<times> pystr) list"

text \<open>The common prefix of both labels: a newline, the bracket, the word, the counter, the name.\<close>

definition image_header :: "nat \<Rightarrow> pystr \<Rightarrow> pystr" where
  "image_header n image_name =
     [10] @ ascii ''['' @ IZOBRAZHENIE @ ascii '' '' @ str_nat n @ ascii '': '' @ image_name"

fun render_element :: "describe \<Rightarrow> media \<Rightarrow> element \<Rightarrow> rstate \<Rightarrow> rstate" where
  "render_element describe images (Text content) st =
     st\<lparr>result_lines := result_lines st @ [PyStr content, PyStr []]\<rparr>"
| "render_element describe images (ImageRef content) st =
     (let n = image_count st + 1;
          image_name = path_name content
      in case images content of
           Some data \<Rightarrow>
             st\<lparr>result_lines := result_lines st @
                    [PyStr (image_header n image_name @ ascii '']''),
                     describe data image_name,
                     PyStr []],
                image_count := n,
                calls := calls st @ [(data, image_name)]\<rparr>
         | None \<Rightarrow>
             st\<lparr>result_lines := result_lines st @
                    [PyStr (image_header n image_name @ ascii '' - '' @ ne_naideno @ ascii '']''),
                     PyStr []],
                image_count := n\<rparr>)"

definition render :: "describe \<Rightarrow> media \<Rightarrow> element list \<Rightarrow> rstate" where
  "render describe images els =
     fold (render_element describe images) els
       \<lparr>result_lines = [], image_count = 0, calls = []\<rparr>"

text \<open>
  \<open>'\n'.join(result_lines)\<close>, which raises \<open>TypeError\<close> when an item of the list is not
  a \<open>str\<close>.
\<close>

fun str_items :: "pyval list \<Rightarrow> pystr list option" where
  "str_items [] = Some []"
| "str_items (PyStr s # vs) = map_option ((#) s) (str_items vs)"
| "str_items (v # vs) = None"

definition join_lines :: "pyval list \<Rightarrow> error + pystr" where
  "join_lines vs =
     (case str_items vs of None \<Rightarrow> Inl TypeError | Some ss \<Rightarrow> Inr (join [10] ss))"

text \<open>
  The block of lines the specification gives an element whose image counter is \<open>n\<close>:
  a text and a blank line; or the labeled header, the description and a blank line;
  or, for a path that is not in the media store, the labeled "not found" header and a
  blank line.
\<close>

definition block_lines :: "describe \<Rightarrow> media \<Rightarrow> nat \<Rightarrow> element \<Rightarrow> pyval list" where
  "block_lines describe images n e =
     (case e of
        Text s \<Rightarrow> [PyStr s, PyStr []]
      | ImageRef path \<Rightarrow>
          (case images path of
             Some data \<Rightarrow>
               [PyStr (image_header n (path_name path) @ ascii '']''),
                describe data (path_name path), PyStr []]
           | None \<Rightarrow>
               [PyStr (image_header n (path_name path) @ ascii '' - '' @ ne_naideno @ ascii '']''),
                PyStr []]))"

text \<open>
  The file system the function reads and writes: a path holds an archive that
  \<open>zipfile\<close> opens, or other content (here the text written by a conversion, as the
  \<open>str\<close> handed to \<open>f.write\<close>; its UTF-8 encoding is not modelled). The function returns
  the file system it leaves and the exception it raises, if any. \<open>output_path\<close> is the
  path the caller gives or the default derived from \<open>docx_path\<close>. \<open>open(output_path,
  'w')\<close> runs before the lines are joined, so a \<open>TypeError\<close> of the join leaves an empty
  output file.
\<close>

datatype file_content = Archive zipfile | Plain pystr

type_synonym filesystem = "pystr \<rightharpoonup> file_content"

definition convert_docx_to_txt ::
  "lib \<Rightarrow> describe \<Rightarrow> pystr \<Rightarrow> pystr \<Rightarrow> filesystem \<Rightarrow> filesystem \<times> error option" where
  "convert_docx_to_txt l describe docx_path output_path fs =
     (case fs docx_path of
        None \<Rightarrow> (fs, Some FileNotFoundError)
      | Some (Plain _) \<Rightarrow> (fs, Some BadZipFile)
      | Some (Archive z) \<Rightarrow>
          (case parse_docx_structure l z of
             Inl e \<Rightarrow> (fs, Some e)
           | Inr (els, images) \<Rightarrow>
               if els = [] then (fs, None)
               else (case join_lines (result_lines (render describe images els)) of
                       Inl e \<Rightarrow> (fs(output_path \<mapsto> Plain []), Some e)
                     | Inr txt \<Rightarrow> (fs(output_path \<mapsto> Plain txt), None))))"

section \<open>analyze_image_with_api\<close>

text \<open>
  Python's \<open>key in obj\<close>, \<open>len(obj)\<close>, \<open>obj[key]\<close> for a \<open>str\<close> key and \<open>obj[0]\<close>, on
  the objects a JSON body decodes to (the keys of a decoded object are strings, so
  \<open>obj[0]\<close> on a \<open>dict\<close> raises \<open>KeyError\<close>).
\<close>

fun infix_of :: "pystr \<Rightarrow> pystr \<Rightarrow> bool" where
  "infix_of p [] = (p = [])"
| "infix_of p (c # cs) = (startswith (c # cs) p \<or> infix_of p cs)"

fun py_contains :: "pystr \<Rightarrow> pyval \<Rightarrow> error + bool" where
  "py_contains k (PyDict kvs) = Inr (map_of kvs k \<noteq> None)"
| "py_contains k (PyList vs) = Inr (PyStr k \<in> set vs)"
| "py_contains k (PyStr s) = Inr (infix_of k s)"
| "py_contains k v = Inl TypeError"

fun py_len :: "pyval \<Rightarrow> error + nat" where
  "py_len (PyDict kvs) = Inr (length kvs)"
| "py_len (PyList vs) = Inr (length vs)"
| "py_len (PyStr s) = Inr (length s)"
| "py_len v = Inl TypeError"

fun py_getitem_str :: "pyval \<Rightarrow> pystr \<Rightarrow> error + pyval" where
  "py_getitem_str (PyDict kvs) k =
     (case map_of kvs k of None \<Rightarrow> Inl (KeyError k) | Some v \<Rightarrow> Inr v)"
| "py_getitem_str v k = Inl TypeError"

fun py_getitem_0 :: "pyval \<Rightarrow> error + pyval" where
  "py_getitem_0 (PyList vs) = (case vs of [] \<Rightarrow> Inl IndexError | v # _ \<Rightarrow> Inr v)"
| "py_getitem_0 (PyStr s) = (case s of [] \<Rightarrow> Inl IndexError | c # _ \<Rightarrow> Inr (PyStr [c]))"
| "py_getitem_0 (PyDict kvs) = Inl (KeyError (ascii ''0''))"
| "py_getitem_0 v = Inl TypeError"

text \<open>
  What the function takes from its environment: the credential; the outcome of
  \<open>requests.post\<close>, \<open>raise_for_status\<close> and \<open>response.json\<close> for the request built from
  an image (the decoded body, or the exception one of the three raises); and
  \<open>str(e)\<close>.
\<close>

record provider =
  OPENROUTER_API_KEY :: pystr
  post_json :: "bytes \<Rightarrow> pystr \<Rightarrow> error + pyval"
  str_of_exception :: "error \<Rightarrow> pystr"

text \<open>
  The Cyrillic words of the placeholders, by code point: "image", "API token not
  found", "could not get a description", "analysis error".
\<close>

definition Izobrazhenie :: pystr where
  "Izobrazhenie = [1048, 1079, 1086, 1073, 1088, 1072, 1078, 1077, 1085, 1080, 1077]"

definition token_ne_naiden :: pystr where
  "token_ne_naiden = [65, 80, 73, 32, 1090, 1086, 1082, 1077, 1085, 32, 1085, 1077, 32, 1085,
     1072, 1081, 1076, 1077, 1085]"

definition ne_udalos :: pystr where
  "ne_udalos = [1053, 1077, 32, 1091, 1076, 1072, 1083, 1086, 1089, 1100, 32, 1087, 1086, 1083,
     1091, 1095, 1080, 1090, 1100, 32, 1086, 1087, 1080, 1089, 1072, 1085, 1080, 1077]"

definition oshibka_analiza :: pystr where
  "oshibka_analiza = [1054, 1096, 1080, 1073, 1082, 1072, 32, 1072, 1085, 1072, 1083, 1080,
     1079, 1072]"

definition placeholder :: "pystr \<Rightarrow> pystr \<Rightarrow> pyval" where
  "placeholder image_name reason =
     PyStr (ascii ''['' @ Izobrazhenie @ ascii '': '' @ image_name @ ascii '' - '' @ reason
            @ ascii '']'')"

text \<open>
  Lines 100 to 104, inside the \<open>try\<close>: the content of the first choice (\<open>Some\<close>), the
  \<open>else\<close> branch (\<open>None\<close>), or the exception an operation raises on the way.
\<close>

definition first_choice :: "pyval \<Rightarrow> error + pyval option" where
  "first_choice result =
     (case py_contains (ascii ''choices'') result of
        Inl e \<Rightarrow> Inl e
      | Inr False \<Rightarrow> Inr None
      | Inr True \<Rightarrow>
          (case py_getitem_str result (ascii ''choices'') of
             Inl e \<Rightarrow> Inl e
           | Inr choices \<Rightarrow>
               (case py_len choices of
                  Inl e \<Rightarrow> Inl e
                | Inr n \<Rightarrow>
                    if n > 0 then
                      (case py_getitem_0 choices of
                         Inl e \<Rightarrow> Inl e
                       | Inr choice \<Rightarrow>
                           (case py_getitem_str choice (ascii ''message'') of
                              Inl e \<Rightarrow> Inl e
                            | Inr message \<Rightarrow>
                                (case py_getitem_str message (ascii ''content'') of
                                   Inl e \<Rightarrow> Inl e
                                 | Inr content \<Rightarrow> Inr (Some content))))
                    else Inr None)))"

definition analyze_image_with_api :: "provider \<Rightarrow> bytes \<Rightarrow> pystr \<Rightarrow> pyval" where
  "analyze_image_with_api pr image_data image_name =
     (if OPENROUTER_API_KEY pr = [] then placeholder image_name token_ne_naiden
      else case (case post_json pr image_data image_name of
                   Inl e \<Rightarrow> Inl e
                 | Inr result \<Rightarrow> first_choice result) of
             Inl e \<Rightarrow>
               placeholder image_name (oshibka_analiza @ ascii '': '' @ str_of_exception pr e)
           | Inr None \<Rightarrow> placeholder image_name ne_udalos
           | Inr (Some content) \<Rightarrow> content)"

section \<open>Example packages\<close>

text \<open>
  Small packages on which the theorems below are instantiated. \<open>example_lib\<close> parses
  the content \<open>[1]\<close> as the given main document and \<open>[2]\<close> as the given relationships
  part, and rejects everything else as malformed.
\<close>

definition example_lib :: "bool \<Rightarrow> bool \<Rightarrow> xml \<Rightarrow> xml \<Rightarrow> lib" where
  "example_lib has_docx opens doc rels =
     \<lparr>HAS_DOCX = has_docx, Document = (\<lambda>z. opens),
      fromstring = (\<lambda>data. if data = [1] then Some doc else if data = [2] then Some rels else None)\<rparr>"

definition plain_tag :: "string \<Rightarrow> pystr" where
  "plain_tag s = ascii (''w:'' @ s)"

definition node :: "pystr \<Rightarrow> xml list \<Rightarrow> xml" where
  "node t cs = Element t [] None cs"

definition run_text :: "pystr \<Rightarrow> xml" where
  "run_text s = node (plain_tag ''r'') [Element w_t [] (Some s) []]"

definition run_drawing :: "pystr \<Rightarrow> xml" where
  "run_drawing rid =
     node (plain_tag ''r'') [node w_drawing [node (plain_tag ''inline'')
       [Element a_blip [(r_embed_key, rid)] None []]]]"

definition relationship :: "pystr \<Rightarrow> pystr \<Rightarrow> xml" where
  "relationship rid target =
     Element r_Relationship [(ascii ''Id'', rid), (ascii ''Target'', target)] None []"

definition document :: "xml list \<Rightarrow> xml" where
  "document paragraphs = node (plain_tag ''document'') [node (plain_tag ''body'') paragraphs]"

definition example_rels :: xml where
  "example_rels = node (plain_tag ''Relationships'')
     [relationship (ascii ''rId1'') (ascii ''media/A.png''),
      relationship (ascii ''rId2'') (ascii ''media/B.png''),
      relationship (ascii ''rId3'') (ascii ''styles.xml'')]"

text \<open>
  A paragraph with text before and after three drawings, the first of which does not
  resolve, followed by a paragraph of text.
\<close>

definition figure_paragraph :: xml where
  "figure_paragraph = node w_p
     [run_text (ascii '' Fig''), run_drawing (ascii ''rId9''), run_text (ascii '' 1 ''),
      run_drawing (ascii ''rId1''), run_drawing (ascii ''rId2'')]"

definition figure_doc :: xml where
  "figure_doc = document [figure_paragraph, node w_p [run_text (ascii ''Tail'')]]"

definition figure_zip :: zipfile where
  "figure_zip = [(document_xml_name, [1]), (rels_xml_name, [2]),
     (ascii ''word/media/A.png'', [3]), (ascii ''word/media/B.png'', [4])]"

text \<open>
  A paragraph of text followed by a paragraph that holds only a drawing, in a package
  with no relationships part, and in one whose relationships part is malformed.
\<close>

definition hello_doc :: xml where
  "hello_doc = document [node w_p [run_text (ascii ''Hello'')], node w_p [run_drawing (ascii ''rId1'')]]"

definition norels_zip :: zipfile where
  "norels_zip = [(document_xml_name, [1]), (ascii ''word/media/A.png'', [3])]"

definition badrels_zip :: zipfile where
  "badrels_zip = [(document_xml_name, [1]), (rels_xml_name, [0]), (ascii ''word/media/A.png'', [3])]"

text \<open>
  The end-to-end scenario of the specification: the paragraphs \<open>Title\<close>, an image
  \<open>A.png\<close> and \<open>Body text\<close>, and a provider stub that returns \<open><desc>\<close>.
\<close>

definition title_doc :: xml where
  "title_doc = document [node w_p [run_text (ascii ''Title'')], node w_p [run_drawing (ascii ''rId1'')],
     node w_p [run_text (ascii ''Body text'')]]"

definition title_zip :: zipfile where
  "title_zip = [(document_xml_name, [1]), (rels_xml_name, [2]), (ascii ''word/media/A.png'', [3])]"

definition desc_stub :: describe where
  "desc_stub image_data image_name = PyStr (ascii ''<desc>'')"

text \<open>
  A provider with a credential whose request is answered, with status 200, by the body
  \<^verbatim>\<open>{"choices": [{"message": {"content": null}}]}\<close>.
\<close>

definition null_content :: pyval where
  "null_content = PyDict [(ascii ''choices'',
     PyList [PyDict [(ascii ''message'', PyDict [(ascii ''content'', PyNone)])]])]"

definition null_provider :: provider where
  "null_provider = \<lparr>OPENROUTER_API_KEY = ascii ''token'',
     post_json = (\<lambda>image_data image_name. Inr null_content),
     str_of_exception = (\<lambda>e. [])\<rparr>"

section \<open>The extractor, paragraph by paragraph\<close>

text \<open>
  The two loop bodies are the same function; the loop over the drawings of a paragraph
  finds the first anchor that resolves; a paragraph appends its text element and at
  most one image element; and the function returns the concatenation of what the
  paragraphs append whenever the main document part is well-formed, and raises
  otherwise.
\<close>

lemma strip_Nil: "strip [] = []"
  by (simp add: strip_def)

lemma append_text_eq:
  "append_text els parts = els @ (let t = strip (concat parts) in if t \<noteq> [] then [Text t] else [])"
  by (simp add: append_text_def Let_def)

lemma fallback_drawings_eq:
  "fallback_drawings rel images ds st = primary_drawings rel images ds st"
  by (induction ds) (auto split: option.splits)

lemma fallback_paragraph_eq:
  "fallback_paragraph rel images p els = primary_paragraph rel images p els"
  by (simp add: fallback_paragraph_def primary_paragraph_def fallback_drawings_eq Let_def)

lemma primary_drawings_eq:
  "primary_drawings rel images ds st =
     (case List.map_filter (anchor_path rel images) ds of
        [] \<Rightarrow> st
      | path # _ \<Rightarrow>
          st\<lparr>elements := append_text (elements st) (text_parts st) @ [ImageRef path],
             image_found := True, text_parts := []\<rparr>)"
proof (induction ds)
  case Nil
  show ?case by simp
next
  case (Cons d ds)
  have nil: "text_parts st = [] \<Longrightarrow> append_text (elements st) (text_parts st) = elements st"
    by (simp add: append_text_def strip_Nil)
  show ?case
    using Cons nil
    by (auto simp: anchor_path_def split: option.splits list.splits)
qed

lemma primary_paragraph_eq:
  "primary_paragraph rel images p els =
     els @ paragraph_text p @ map ImageRef (take 1 (List.map_filter (anchor_path rel images) (findall w_drawing p)))"
proof -
  have e: "collect_text p = [] \<Longrightarrow> paragraph_text p = []"
    by (simp add: paragraph_text_def strip_Nil)
  show ?thesis
    using e
    by (auto simp: primary_paragraph_def primary_drawings_eq append_text_eq paragraph_text_def
        Let_def split: list.splits)
qed

lemma fold_primary_paragraph:
  "fold (primary_paragraph rel images) ps els =
     els @ concat (map (paragraph_elements rel images) ps)"
proof (induction ps arbitrary: els)
  case Nil
  show ?case by simp
next
  case (Cons p ps)
  have "primary_paragraph rel images p els = els @ paragraph_elements rel images p"
    by (simp add: paragraph_elements_def primary_paragraph_eq)
  then show ?case by (simp add: Cons)
qed

lemma fallback_strategy_eq:
  "read_xml l z document_xml_name = Inr doc_root \<Longrightarrow>
   fallback_strategy l z images els =
     Inr (els @ concat (map (paragraph_elements (fallback_rel_to_image l z) images) (findall w_p doc_root)))"
proof -
  have "fallback_paragraph rel images = primary_paragraph rel images" for rel
    by (intro ext) (rule fallback_paragraph_eq)
  then show "read_xml l z document_xml_name = Inr doc_root \<Longrightarrow> ?thesis"
    by (simp add: fallback_strategy_def fold_primary_paragraph)
qed

lemma fallback_strategy_error:
  "read_xml l z document_xml_name = Inl e \<Longrightarrow> fallback_strategy l z images els = Inl e"
  by (simp add: fallback_strategy_def)

lemma primary_strategy_Inr:
  assumes "primary_strategy l z images = Inr els"
  shows "\<exists>doc_root. read_xml l z document_xml_name = Inr doc_root \<and>
     els = concat (map (paragraph_elements (fallback_rel_to_image l z) images) (findall w_p doc_root))"
  using assms
  by (auto simp: primary_strategy_def fallback_rel_to_image_def primary_rel_to_image_def
      fold_primary_paragraph Let_def split: if_splits sum.splits)

lemma parse_docx_structure_eq:
  assumes "read_xml l z document_xml_name = Inr doc_root"
  shows "parse_docx_structure l z =
     Inr (concat (map (paragraph_elements (fallback_rel_to_image l z) (extract_images_from_docx z))
            (findall w_p doc_root)), extract_images_from_docx z)"
proof (cases "HAS_DOCX l")
  case False
  then show ?thesis
    by (simp add: parse_docx_structure_def fallback_strategy_eq [OF assms] Let_def)
next
  case True
  show ?thesis
  proof (cases "primary_strategy l z (extract_images_from_docx z)")
    case (Inl e)
    with True show ?thesis
      by (simp add: parse_docx_structure_def fallback_strategy_eq [OF assms] Let_def)
  next
    case (Inr els)
    from primary_strategy_Inr [OF Inr] assms
    have "els = concat (map (paragraph_elements (fallback_rel_to_image l z) (extract_images_from_docx z))
            (findall w_p doc_root))" by auto
    with True Inr show ?thesis
      by (simp add: parse_docx_structure_def Let_def)
  qed
qed

lemma parse_docx_structure_error:
  assumes "read_xml l z document_xml_name = Inl e"
  shows "parse_docx_structure l z = Inl e"
proof -
  have "primary_strategy l z images \<noteq> Inr els" for images els
    using primary_strategy_Inr [of l z images els] assms by auto
  then show ?thesis
    using assms
    by (auto simp: parse_docx_structure_def fallback_strategy_error Let_def split: sum.splits)
qed

lemma paragraph_elements_eq:
  "paragraph_elements rel images p =
     paragraph_text p @ map ImageRef (take 1 (List.map_filter (anchor_path rel images) (findall w_drawing p)))"
  by (simp add: paragraph_elements_def primary_paragraph_eq)

lemma is_image_paragraph_text: "filter is_image (paragraph_text p) = []"
  by (simp add: paragraph_text_def is_image_def Let_def)

lemma ImageRef_notin_paragraph_text: "ImageRef path \<notin> set (paragraph_text p)"
  by (simp add: paragraph_text_def Let_def)

lemma anchor_path_empty: "anchor_path Map.empty images d = None"
  by (simp add: anchor_path_def split: option.splits)

lemma paragraph_elements_empty_table:
  "paragraph_elements Map.empty images p = paragraph_text p"
  by (simp add: paragraph_elements_eq anchor_path_empty List.map_filter_def)

lemma anchor_path_in_media: "anchor_path rel images d = Some path \<Longrightarrow> images path \<noteq> None"
  by (auto simp: anchor_path_def split: option.splits if_splits)

lemma ImageRef_in_paragraph_elements:
  assumes "ImageRef path \<in> set (paragraph_elements rel images p)"
  shows "images path \<noteq> None"
proof -
  from assms have "path \<in> set (take 1 (List.map_filter (anchor_path rel images) (findall w_drawing p)))"
    by (auto simp: paragraph_elements_eq ImageRef_notin_paragraph_text)
  then have "path \<in> set (List.map_filter (anchor_path rel images) (findall w_drawing p))"
    by (rule in_set_takeD)
  then obtain d where "anchor_path rel images d = Some path"
    by (auto simp: List.map_filter_def)
  then show ?thesis by (rule anchor_path_in_media)
qed

lemma parse_docx_structure_Inr:
  assumes "parse_docx_structure l z = Inr (els, images)"
  shows "\<exists>doc_root. read_xml l z document_xml_name = Inr doc_root"
proof (cases "read_xml l z document_xml_name")
  case (Inl e)
  from parse_docx_structure_error [OF Inl] assms show ?thesis by simp
next
  case (Inr doc_root)
  then show ?thesis by blast
qed

lemma missing_relationships_parse:
  assumes "read_xml l z rels_xml_name = Inl e"
    and "read_xml l z document_xml_name = Inr doc_root"
  shows "parse_docx_structure l z =
         Inr (concat (map paragraph_text (findall w_p doc_root)), extract_images_from_docx z)"
proof -
  from assms(1) have t: "fallback_rel_to_image l z = Map.empty"
    by (simp add: fallback_rel_to_image_def)
  have "paragraph_elements Map.empty (extract_images_from_docx z) = paragraph_text"
    by (intro ext) (rule paragraph_elements_empty_table)
  with t parse_docx_structure_eq [OF assms(2)] show ?thesis
    by simp
qed

lemma read_xml_HAS_DOCX: "read_xml (l\<lparr>HAS_DOCX := b\<rparr>) z n = read_xml l z n"
  by (simp add: read_xml_def split: option.splits)

lemma fallback_rel_to_image_HAS_DOCX: "fallback_rel_to_image (l\<lparr>HAS_DOCX := b\<rparr>) z = fallback_rel_to_image l z"
  by (simp add: fallback_rel_to_image_def read_xml_HAS_DOCX split: sum.splits)

lemma is_image_concat_paragraph_text: "filter is_image (concat (map paragraph_text ps)) = []"
  by (induction ps) (simp_all add: is_image_paragraph_text)

lemma paragraph_elements_unresolved:
  assumes "\<forall>d \<in> set (findall w_drawing p). anchor_path rel images d = None"
  shows "paragraph_elements rel images p = paragraph_text p"
proof -
  from assms have "List.map_filter (anchor_path rel images) (findall w_drawing p) = []"
    by (auto simp: List.map_filter_def filter_empty_conv)
  then show ?thesis
    by (simp add: paragraph_elements_eq)
qed

section \<open>The rendering loop, element by element\<close>

text \<open>
  One step of the loop appends the block of its element and counts it when it is an
  image; the lemmas below follow the counter, the lines and the provider calls through
  the whole loop.
\<close>

lemma render_element_eq:
  "render_element describe images e st =
     st\<lparr>result_lines := result_lines st @ block_lines describe images (image_count st + (if is_image e then 1 else 0)) e,
        image_count := image_count st + (if is_image e then 1 else 0),
        calls := calls st @ (case e of Text s \<Rightarrow> []
                 | ImageRef path \<Rightarrow> (case images path of None \<Rightarrow> [] | Some data \<Rightarrow> [(data, path_name path)]))\<rparr>"
  by (cases e) (simp_all add: block_lines_def is_image_def Let_def split: option.splits)

lemma image_count_fold:
  "image_count (fold (render_element describe images) els st) =
     image_count st + length (filter is_image els)"
  by (induction els arbitrary: st) (simp_all add: render_element_eq)

lemma result_lines_fold:
  "result_lines (fold (render_element describe images) els st) =
     result_lines st @
     concat (map (\<lambda>i. block_lines describe images
                         (image_count st + length (filter is_image (take (Suc i) els))) (els ! i))
                 [0..<length els])"
proof (induction els rule: rev_induct)
  case Nil
  show ?case by simp
next
  case (snoc e els)
  have m: "map (\<lambda>i. block_lines describe images
                 (image_count st + length (filter is_image (take (Suc i) (els @ [e])))) ((els @ [e]) ! i))
             [0..<length els] =
           map (\<lambda>i. block_lines describe images
                 (image_count st + length (filter is_image (take (Suc i) els))) (els ! i))
             [0..<length els]"
    by (rule map_cong) (simp_all add: nth_append)
  have t: "take (Suc (length els)) (els @ [e]) = els @ [e]"
    by simp
  show ?case
    by (simp add: snoc render_element_eq [of describe images e] image_count_fold m t
        del: take_append)
qed

lemma counters_ascending:
  "map (\<lambda>i. length (filter is_image (take (Suc i) els)))
       (filter (\<lambda>i. is_image (els ! i)) [0..<length els]) =
   [1..<Suc (length (filter is_image els))]"
proof (induction els rule: rev_induct)
  case Nil
  show ?case by simp
next
  case (snoc e els)
  have f: "filter (\<lambda>i. is_image ((els @ [e]) ! i)) [0..<length els] =
           filter (\<lambda>i. is_image (els ! i)) [0..<length els]"
    by (rule filter_cong) (simp_all add: nth_append)
  have m: "map (\<lambda>i. length (filter is_image (take (Suc i) (els @ [e]))))
             (filter (\<lambda>i. is_image (els ! i)) [0..<length els]) =
           map (\<lambda>i. length (filter is_image (take (Suc i) els)))
             (filter (\<lambda>i. is_image (els ! i)) [0..<length els])"
    by (rule map_cong) simp_all
  have t: "take (Suc (length els)) (els @ [e]) = els @ [e]"
    by simp
  show ?case
    by (simp add: f m t snoc del: take_append)
qed

lemma calls_fold_found:
  assumes "\<forall>path. ImageRef path \<in> set els \<longrightarrow> images path \<noteq> None"
  shows "length (calls (fold (render_element describe images) els st)) =
     length (calls st) + length (filter is_image els)"
  using assms
proof (induction els arbitrary: st)
  case Nil
  show ?case by simp
next
  case (Cons e els)
  then show ?case
    by (cases e) (auto simp: render_element_eq is_image_def)
qed

lemma render_texts:
  assumes "filter is_image els = []"
  shows "fold (render_element describe images) els st =
     st\<lparr>result_lines := result_lines st @
          map PyStr (concat (map (\<lambda>e. case e of Text s \<Rightarrow> [s, []] | ImageRef path \<Rightarrow> []) els))\<rparr>"
  using assms
proof (induction els arbitrary: st)
  case Nil
  show ?case by simp
next
  case (Cons e els)
  then show ?case
    by (cases e) (simp_all add: is_image_def)
qed

lemma str_items_PyStr: "str_items (map PyStr ss) = Some ss"
  by (induction ss) simp_all

section \<open>What analyze_image_with_api returns\<close>

text \<open>
  Without a credential, and whenever the request or an operation on the decoded body
  raises, the function returns a placeholder that embeds the image name. Anything else
  it returns is the \<open>content\<close> of the first choice, whatever object that is.
\<close>

lemma analyze_image_with_api_no_token:
  "OPENROUTER_API_KEY pr = [] \<Longrightarrow>
   analyze_image_with_api pr image_data image_name = placeholder image_name token_ne_naiden"
  by (simp add: analyze_image_with_api_def)

lemma analyze_image_with_api_raises:
  "OPENROUTER_API_KEY pr \<noteq> [] \<Longrightarrow> post_json pr image_data image_name = Inl e \<Longrightarrow>
   analyze_image_with_api pr image_data image_name =
     placeholder image_name (oshibka_analiza @ ascii '': '' @ str_of_exception pr e)"
  by (simp add: analyze_image_with_api_def)

lemma analyze_image_with_api_cases:
  "(\<exists>reason. analyze_image_with_api pr image_data image_name = placeholder image_name reason)
   \<or> (\<exists>result. post_json pr image_data image_name = Inr result
        \<and> first_choice result = Inr (Some (analyze_image_with_api pr image_data image_name)))"
  by (auto simp: analyze_image_with_api_def split: sum.splits option.splits)

section \<open>Evaluating the examples\<close>

text \<open>
  The tags the source looks for are pairwise distinct and differ from the other tags
  of the examples, so the examples evaluate by rewriting with the definitions.
\<close>

lemma tag_distinct [simp]:
  "w_p \<noteq> w_t" "w_p \<noteq> w_drawing" "w_p \<noteq> a_blip" "w_p \<noteq> r_Relationship"
  "w_t \<noteq> w_p" "w_t \<noteq> w_drawing" "w_t \<noteq> a_blip" "w_t \<noteq> r_Relationship"
  "w_drawing \<noteq> w_p" "w_drawing \<noteq> w_t" "w_drawing \<noteq> a_blip" "w_drawing \<noteq> r_Relationship"
  "a_blip \<noteq> w_p" "a_blip \<noteq> w_t" "a_blip \<noteq> w_drawing" "a_blip \<noteq> r_Relationship"
  "r_Relationship \<noteq> w_p" "r_Relationship \<noteq> w_t" "r_Relationship \<noteq> w_drawing"
  "r_Relationship \<noteq> a_blip"
  by (simp_all add: w_p_def w_t_def w_drawing_def a_blip_def r_Relationship_def ascii_def)

lemma plain_tag_distinct [simp]:
  "plain_tag s \<noteq> w_p" "plain_tag s \<noteq> w_t" "plain_tag s \<noteq> w_drawing" "plain_tag s \<noteq> a_blip"
  "plain_tag s \<noteq> r_Relationship"
  by (simp_all add: plain_tag_def w_p_def w_t_def w_drawing_def a_blip_def r_Relationship_def ascii_def)

lemmas example_defs = example_lib_def node_def run_text_def run_drawing_def relationship_def
  document_def example_rels_def figure_paragraph_def figure_doc_def figure_zip_def
  hello_doc_def norels_zip_def badrels_zip_def title_doc_def title_zip_def

lemmas eval_defs = read_xml_def zip_read_def namelist_def document_xml_name_def rels_xml_name_def
  ascii_def findall_def find_first_def get_attr_def extract_images_from_docx_def
  fallback_rel_to_image_def paragraph_elements_def primary_paragraph_def collect_text_def
  append_text_def strip_def isspace_def paragraph_text_def anchor_path_def is_image_def
  List.map_filter_simps Let_def

lemmas render_defs = render_def path_name_def image_header_def IZOBRAZHENIE_def ne_naideno_def
  join_lines_def str_nat.simps

lemmas primary_defs = primary_strategy_def primary_rel_to_image_def

lemma title_elements:
  "parse_docx_structure (example_lib has_docx opens title_doc example_rels) title_zip =
     Inr ([Text (ascii ''Title''), ImageRef (ascii ''word/media/A.png''), Text (ascii ''Body text'')],
          extract_images_from_docx title_zip)"
proof -
  have h: "read_xml (example_lib has_docx opens title_doc example_rels) title_zip document_xml_name = Inr title_doc"
    by (simp add: eval_defs example_defs)
  have e: "concat (map (paragraph_elements (fallback_rel_to_image (example_lib has_docx opens title_doc example_rels) title_zip)
      (extract_images_from_docx title_zip)) (findall w_p title_doc)) =
     [Text (ascii ''Title''), ImageRef (ascii ''word/media/A.png''), Text (ascii ''Body text'')]"
    by (simp add: eval_defs example_defs)
  from parse_docx_structure_eq [OF h] e show ?thesis by simp
qed

lemma title_lines:
  "result_lines (render describe (extract_images_from_docx title_zip)
     [Text (ascii ''Title''), ImageRef (ascii ''word/media/A.png''), Text (ascii ''Body text'')]) =
   [PyStr (ascii ''Title''), PyStr [],
    PyStr (ascii ''\<newline>['' @ IZOBRAZHENIE @ ascii '' 1: A.png]''), describe [3] (ascii ''A.png''), PyStr [],
    PyStr (ascii ''Body text''), PyStr []]"
  by (simp add: render_defs eval_defs example_defs)

lemma title_join:
  "join_lines (result_lines (render desc_stub (extract_images_from_docx title_zip)
     [Text (ascii ''Title''), ImageRef (ascii ''word/media/A.png''), Text (ascii ''Body text'')])) =
   Inr (ascii ''Title\<newline>\<newline>\<newline>['' @ IZOBRAZHENIE
        @ ascii '' 1: A.png]\<newline><desc>\<newline>\<newline>Body text\<newline>'')"
  unfolding title_lines
  by (simp add: join_lines_def desc_stub_def ascii_def)

lemma title_conversion:
  "convert_docx_to_txt (example_lib has_docx opens title_doc example_rels) desc_stub
     docx_path output_path [docx_path \<mapsto> Archive title_zip] =
   ([docx_path \<mapsto> Archive title_zip,
     output_path \<mapsto> Plain (ascii ''Title\<newline>\<newline>\<newline>['' @ IZOBRAZHENIE
        @ ascii '' 1: A.png]\<newline><desc>\<newline>\<newline>Body text\<newline>'')],
    None)"
  by (simp add: convert_docx_to_txt_def title_elements title_join)

lemma hello_norels:
  "read_xml (example_lib has_docx opens hello_doc example_rels) norels_zip rels_xml_name =
     Inl (KeyError rels_xml_name)"
  "read_xml (example_lib has_docx opens hello_doc example_rels) norels_zip document_xml_name =
     Inr hello_doc"
  "concat (map paragraph_text (findall w_p hello_doc)) = [Text (ascii ''Hello'')]"
  by (simp_all add: eval_defs example_defs)

lemma hello_conversion:
  "convert_docx_to_txt (example_lib has_docx opens hello_doc example_rels) describe
     docx_path output_path [docx_path \<mapsto> Archive norels_zip] =
   ([docx_path \<mapsto> Archive norels_zip, output_path \<mapsto> Plain (ascii ''Hello\<newline>'')], None)"
proof -
  have p: "parse_docx_structure (example_lib has_docx opens hello_doc example_rels) norels_zip =
      Inr ([Text (ascii ''Hello'')], extract_images_from_docx norels_zip)"
    using missing_relationships_parse [OF hello_norels(1,2)] hello_norels(3) by simp
  have j: "join_lines (result_lines (render describe (extract_images_from_docx norels_zip)
      [Text (ascii ''Hello'')])) = Inr (ascii ''Hello\<newline>'')"
    by (simp add: render_def join_lines_def ascii_def)
  show ?thesis
    by (simp add: convert_docx_to_txt_def p j)
qed

section \<open>The claims\<close>

text \<open>
  Claim C1. When the main document part is well-formed, the element sequence is the
  concatenation, in traversal order of the paragraphs, of what each paragraph adds
  (a paragraph nested in another is a paragraph of its own in that order). A
  paragraph that adds an image element adds exactly the \<open>Text\<close> element of its trimmed
  text (when that text is not empty) immediately followed by the image element, and
  nothing after it: no further text of that paragraph follows. The relationship
  table of both strategies is \<open>fallback_rel_to_image\<close>, which on the primary strategy
  is the table read from the part.
\<close>

theorem text_immediately_precedes_image:
  assumes "read_xml l z document_xml_name = Inr doc_root"
  shows "parse_docx_structure l z =
           Inr (concat (map (paragraph_elements (fallback_rel_to_image l z) (extract_images_from_docx z))
                          (findall w_p doc_root)),
                extract_images_from_docx z)
     \<and> (\<forall>rel images p path.
           ImageRef path \<in> set (paragraph_elements rel images p) \<longrightarrow>
           paragraph_elements rel images p = paragraph_text p @ [ImageRef path])"
proof (intro conjI allI impI)
  show "parse_docx_structure l z =
           Inr (concat (map (paragraph_elements (fallback_rel_to_image l z) (extract_images_from_docx z))
                          (findall w_p doc_root)),
                extract_images_from_docx z)"
    by (rule parse_docx_structure_eq [OF assms])
next
  fix rel images p path
  assume "ImageRef path \<in> set (paragraph_elements rel images p)"
  then have "ImageRef path \<in> set (map ImageRef (take 1 (List.map_filter (anchor_path rel images) (findall w_drawing p))))"
    by (simp add: paragraph_elements_eq ImageRef_notin_paragraph_text)
  then have "take 1 (List.map_filter (anchor_path rel images) (findall w_drawing p)) = [path]"
    by (cases "List.map_filter (anchor_path rel images) (findall w_drawing p)") auto
  then show "paragraph_elements rel images p = paragraph_text p @ [ImageRef path]"
    by (simp add: paragraph_elements_eq)
qed

theorem text_immediately_precedes_image_witness:
  "parse_docx_structure (example_lib True True figure_doc example_rels) figure_zip =
     Inr ([Text (ascii ''Fig 1''), ImageRef (ascii ''word/media/A.png''), Text (ascii ''Tail'')],
          extract_images_from_docx figure_zip)
   \<and> paragraph_elements (fallback_rel_to_image (example_lib True True figure_doc example_rels) figure_zip)
        (extract_images_from_docx figure_zip) figure_paragraph =
      paragraph_text figure_paragraph @ [ImageRef (ascii ''word/media/A.png'')]
   \<and> paragraph_text figure_paragraph = [Text (ascii ''Fig 1'')]"
proof -
  let ?l = "example_lib True True figure_doc example_rels"
  have h: "read_xml ?l figure_zip document_xml_name = Inr figure_doc"
    by (simp add: eval_defs example_defs)
  note T = text_immediately_precedes_image [OF h]
  have e: "concat (map (paragraph_elements (fallback_rel_to_image ?l figure_zip) (extract_images_from_docx figure_zip))
             (findall w_p figure_doc)) =
           [Text (ascii ''Fig 1''), ImageRef (ascii ''word/media/A.png''), Text (ascii ''Tail'')]"
    by (simp add: eval_defs example_defs)
  have m: "ImageRef (ascii ''word/media/A.png'') \<in> set (paragraph_elements (fallback_rel_to_image ?l figure_zip)
        (extract_images_from_docx figure_zip) figure_paragraph)"
    by (simp add: eval_defs example_defs)
  have t: "paragraph_text figure_paragraph = [Text (ascii ''Fig 1'')]"
    by (simp add: eval_defs example_defs)
  from conjunct1 [OF T] e
  have 1: "parse_docx_structure ?l figure_zip =
     Inr ([Text (ascii ''Fig 1''), ImageRef (ascii ''word/media/A.png''), Text (ascii ''Tail'')],
          extract_images_from_docx figure_zip)"
    by simp
  note 2 = conjunct2 [OF T, rule_format, OF m]
  from 1 2 t show ?thesis
    by blast
qed

text \<open>
  Claim C2, as the code has it. A package without a readable relationships part and
  with a well-formed main part still gives all paragraphs with non-empty trimmed text,
  in order, each followed by a blank line; but no drawing is rendered at all: there
  is no image element, hence no image block and no "not found" block, and the
  provider is never invoked. In general a paragraph none of whose anchors resolves
  (relationship id absent from the table, or path absent from the media store) adds
  its text only. The "not found" block is what the renderer writes, without invoking
  the provider, for an image element whose path is not in the media store it is given.
\<close>

theorem unresolved_drawings_are_dropped:
  assumes "read_xml l z rels_xml_name = Inl e"
    and "read_xml l z document_xml_name = Inr doc_root"
    and "els = concat (map paragraph_text (findall w_p doc_root))"
    and "fs docx_path = Some (Archive z)"
  shows "parse_docx_structure l z = Inr (els, extract_images_from_docx z)
     \<and> filter is_image els = []
     \<and> calls (render describe (extract_images_from_docx z) els) = []
     \<and> convert_docx_to_txt l describe docx_path output_path fs =
         (if els = [] then (fs, None)
          else (fs(output_path \<mapsto> Plain (join [10]
                  (concat (map (\<lambda>e. case e of Text s \<Rightarrow> [s, []] | ImageRef path \<Rightarrow> []) els)))),
                None))
     \<and> (\<forall>rel images p.
           (\<forall>d \<in> set (findall w_drawing p). anchor_path rel images d = None) \<longrightarrow>
           paragraph_elements rel images p = paragraph_text p)
     \<and> (\<forall>images path st.
           images path = None \<longrightarrow>
           render_element describe images (ImageRef path) st =
             st\<lparr>result_lines := result_lines st @
                    [PyStr (image_header (image_count st + 1) (path_name path)
                            @ ascii '' - '' @ ne_naideno @ ascii '']''), PyStr []],
                image_count := image_count st + 1\<rparr>)"
proof -
  let ?images = "extract_images_from_docx z"
  from missing_relationships_parse [OF assms(1,2)] assms(3)
  have p: "parse_docx_structure l z = Inr (els, ?images)" by simp
  have t: "filter is_image els = []"
    unfolding assms(3) by (rule is_image_concat_paragraph_text)
  note r = render_texts [OF t, of describe ?images]
  have c: "calls (render describe ?images els) = []"
    by (simp add: render_def r)
  have j: "join_lines (result_lines (render describe ?images els)) =
      Inr (join [10] (concat (map (\<lambda>e. case e of Text s \<Rightarrow> [s, []] | ImageRef path \<Rightarrow> []) els)))"
    by (simp add: render_def r join_lines_def str_items_PyStr)
  have v: "convert_docx_to_txt l describe docx_path output_path fs =
         (if els = [] then (fs, None)
          else (fs(output_path \<mapsto> Plain (join [10]
                  (concat (map (\<lambda>e. case e of Text s \<Rightarrow> [s, []] | ImageRef path \<Rightarrow> []) els)))),
                None))"
    by (simp add: convert_docx_to_txt_def assms(4) p j)
  have u: "\<forall>rel images p.
           (\<forall>d \<in> set (findall w_drawing p). anchor_path rel images d = None) \<longrightarrow>
           paragraph_elements rel images p = paragraph_text p"
    by (intro allI impI) (rule paragraph_elements_unresolved)
  have n: "\<forall>images path st.
           images path = None \<longrightarrow>
           render_element describe images (ImageRef path) st =
             st\<lparr>result_lines := result_lines st @
                    [PyStr (image_header (image_count st + 1) (path_name path)
                            @ ascii '' - '' @ ne_naideno @ ascii '']''), PyStr []],
                image_count := image_count st + 1\<rparr>"
    by (simp add: Let_def)
  from p t c v u n show ?thesis by blast
qed

theorem unresolved_drawings_are_dropped_witness:
  "parse_docx_structure (example_lib False True hello_doc example_rels) norels_zip =
     Inr ([Text (ascii ''Hello'')], extract_images_from_docx norels_zip)
   \<and> calls (render desc_stub (extract_images_from_docx norels_zip) [Text (ascii ''Hello'')]) = []
   \<and> convert_docx_to_txt (example_lib False True hello_doc example_rels) desc_stub
        (ascii ''a.docx'') (ascii ''b.txt'') [ascii ''a.docx'' \<mapsto> Archive norels_zip] =
      ([ascii ''a.docx'' \<mapsto> Archive norels_zip,
        ascii ''b.txt'' \<mapsto> Plain (join [10] [ascii ''Hello'', []])], None)"
proof -
  let ?l = "example_lib False True hello_doc example_rels"
  let ?fs = "[ascii ''a.docx'' \<mapsto> Archive norels_zip]"
  have f: "?fs (ascii ''a.docx'') = Some (Archive norels_zip)"
    by simp
  from unresolved_drawings_are_dropped [where fs = ?fs and docx_path = "ascii ''a.docx''"
      and describe = desc_stub and output_path = "ascii ''b.txt''",
      OF hello_norels(1,2) hello_norels(3) [symmetric] f]
  show ?thesis
    by simp
qed

text \<open>
  The claim as stated fails: the package below has no relationships part and one
  drawing anchor, and the output is \<open>Hello\<close> and a newline, with no "not found" block.
\<close>

theorem unresolved_drawings_are_dropped_counterexample:
  "zip_read norels_zip rels_xml_name = None
   \<and> length (findall w_drawing hello_doc) = 1
   \<and> convert_docx_to_txt (example_lib True True hello_doc example_rels) desc_stub
        (ascii ''a.docx'') (ascii ''a.txt'') [ascii ''a.docx'' \<mapsto> Archive norels_zip] =
      ([ascii ''a.docx'' \<mapsto> Archive norels_zip, ascii ''a.txt'' \<mapsto> Plain (ascii ''Hello\<newline>'')],
       None)
   \<and> \<not> infix_of ne_naideno (ascii ''Hello\<newline>'')"
proof -
  have 1: "zip_read norels_zip rels_xml_name = None"
    by (simp add: eval_defs example_defs)
  have 2: "length (findall w_drawing hello_doc) = 1"
    by (simp add: eval_defs example_defs)
  have 3: "\<not> infix_of ne_naideno (ascii ''Hello\<newline>'')"
    by (simp add: ne_naideno_def ascii_def)
  from 1 2 3 hello_conversion show ?thesis
    by simp
qed

text \<open>
  Claim C3, as the code has it. The scenario renders, on either strategy, as the
  lines \<open>Title\<close>, blank, blank, the label, \<open><desc>\<close>, blank, \<open>Body text\<close> and one final
  newline; the label is the bracketed Cyrillic word, the counter 1 and \<open>A.png\<close>.
\<close>

theorem end_to_end_output:
  "convert_docx_to_txt (example_lib has_docx opens title_doc example_rels) desc_stub
     docx_path output_path [docx_path \<mapsto> Archive title_zip] =
   ([docx_path \<mapsto> Archive title_zip,
     output_path \<mapsto> Plain (ascii ''Title\<newline>\<newline>\<newline>['' @ IZOBRAZHENIE
        @ ascii '' 1: A.png]\<newline><desc>\<newline>\<newline>Body text\<newline>'')],
    None)"
proof -
  let ?l = "example_lib has_docx opens title_doc example_rels"
  let ?els = "[Text (ascii ''Title''), ImageRef (ascii ''word/media/A.png''), Text (ascii ''Body text'')]"
  have p: "parse_docx_structure ?l title_zip = Inr (?els, extract_images_from_docx title_zip)"
    by (rule title_elements)
  show ?thesis
    unfolding convert_docx_to_txt_def
    by (simp add: p title_join)
qed

text \<open>
  The claim as stated fails: the output is not the string of the specification, and
  it is not that string with the source's label in place of \<open>IMAGE\<close> either, since it
  ends in one newline, not two.
\<close>

theorem end_to_end_output_counterexample:
  "fst (convert_docx_to_txt (example_lib True True title_doc example_rels) desc_stub
     (ascii ''a.docx'') (ascii ''a.txt'') [ascii ''a.docx'' \<mapsto> Archive title_zip]) (ascii ''a.txt'')
   \<noteq> Some (Plain (ascii ''Title\<newline>\<newline>\<newline>[IMAGE 1: A.png]\<newline><desc>\<newline>\<newline>Body text\<newline>\<newline>''))
   \<and> fst (convert_docx_to_txt (example_lib True True title_doc example_rels) desc_stub
     (ascii ''a.docx'') (ascii ''a.txt'') [ascii ''a.docx'' \<mapsto> Archive title_zip]) (ascii ''a.txt'')
   \<noteq> Some (Plain (ascii ''Title\<newline>\<newline>\<newline>['' @ IZOBRAZHENIE
        @ ascii '' 1: A.png]\<newline><desc>\<newline>\<newline>Body text\<newline>\<newline>''))"
  unfolding title_conversion
  by (simp add: ascii_def IZOBRAZHENIE_def)

text \<open>
  Claim C4. The block rendered for the element at position \<open>i\<close> carries the number
  of image elements among the first \<open>i + 1\<close> elements; read off at the image elements
  in order, these counters are 1, 2, ..., up to the number of image elements, which is
  also the final value of the counter (it starts at zero).
\<close>

theorem image_counters_ascending:
  "result_lines (render describe images els) =
     concat (map (\<lambda>i. block_lines describe images
                         (length (filter is_image (take (Suc i) els))) (els ! i))
                 [0..<length els])
   \<and> map (\<lambda>i. length (filter is_image (take (Suc i) els)))
         (filter (\<lambda>i. is_image (els ! i)) [0..<length els]) =
       [1..<Suc (length (filter is_image els))]
   \<and> image_count (render describe images els) = length (filter is_image els)"
  by (simp add: render_def result_lines_fold image_count_fold counters_ascending)

theorem image_counters_ascending_witness:
  "result_lines (render desc_stub (extract_images_from_docx title_zip)
     [ImageRef (ascii ''word/media/A.png''), Text (ascii ''x''), ImageRef (ascii ''word/media/Z.png'')]) =
   [PyStr (ascii ''\<newline>['' @ IZOBRAZHENIE @ ascii '' 1: A.png]''), PyStr (ascii ''<desc>''), PyStr [],
    PyStr (ascii ''x''), PyStr [],
    PyStr (ascii ''\<newline>['' @ IZOBRAZHENIE @ ascii '' 2: Z.png - '' @ ne_naideno @ ascii '']''), PyStr []]"
proof -
  let ?images = "extract_images_from_docx title_zip"
  let ?els = "[ImageRef (ascii ''word/media/A.png''), Text (ascii ''x''), ImageRef (ascii ''word/media/Z.png'')]"
  have u: "[0..<length ?els] = [0, 1, 2]"
    by (simp add: upt_rec)
  have a: "block_lines desc_stub ?images (Suc 0) (ImageRef (ascii ''word/media/A.png'')) =
      [PyStr (ascii ''\<newline>['' @ IZOBRAZHENIE @ ascii '' 1: A.png]''), PyStr (ascii ''<desc>''), PyStr []]"
    by (simp add: block_lines_def render_defs eval_defs example_defs desc_stub_def)
  have z: "block_lines desc_stub ?images (Suc (Suc 0)) (ImageRef (ascii ''word/media/Z.png'')) =
      [PyStr (ascii ''\<newline>['' @ IZOBRAZHENIE @ ascii '' 2: Z.png - '' @ ne_naideno @ ascii '']''), PyStr []]"
    by (simp add: block_lines_def render_defs eval_defs example_defs)
  have x: "block_lines desc_stub ?images n (Text (ascii ''x'')) = [PyStr (ascii ''x''), PyStr []]" for n
    by (simp add: block_lines_def)
  from conjunct1 [OF image_counters_ascending [of desc_stub ?images ?els]]
  show ?thesis
    unfolding u by (simp add: is_image_def a z x)
qed

text \<open>
  Claim C5. Every paragraph adds at most one image element: of the paths its
  drawing anchors resolve to (relationship id in the table, path in the media store),
  in document order, only the first is emitted; anchors that do not resolve and all
  anchors after the first resolving one add nothing.
\<close>

theorem at_most_one_image_per_paragraph:
  assumes "read_xml l z document_xml_name = Inr doc_root"
  shows "parse_docx_structure l z =
           Inr (concat (map (paragraph_elements (fallback_rel_to_image l z) (extract_images_from_docx z))
                          (findall w_p doc_root)),
                extract_images_from_docx z)
     \<and> (\<forall>rel images p.
           filter is_image (paragraph_elements rel images p) =
             map ImageRef (take 1 (List.map_filter (anchor_path rel images) (findall w_drawing p))))"
proof (intro conjI allI)
  show "parse_docx_structure l z =
           Inr (concat (map (paragraph_elements (fallback_rel_to_image l z) (extract_images_from_docx z))
                          (findall w_p doc_root)),
                extract_images_from_docx z)"
    by (rule parse_docx_structure_eq [OF assms])
next
  fix rel images p
  have "filter is_image (map ImageRef xs) = map ImageRef xs" for xs
    by (induction xs) (simp_all add: is_image_def)
  then show "filter is_image (paragraph_elements rel images p) =
             map ImageRef (take 1 (List.map_filter (anchor_path rel images) (findall w_drawing p)))"
    by (simp add: paragraph_elements_eq is_image_paragraph_text)
qed

theorem at_most_one_image_per_paragraph_witness:
  "List.map_filter
     (anchor_path (fallback_rel_to_image (example_lib False True figure_doc example_rels) figure_zip)
        (extract_images_from_docx figure_zip))
     (findall w_drawing figure_paragraph) = [ascii ''word/media/A.png'', ascii ''word/media/B.png'']
   \<and> filter is_image (paragraph_elements
        (fallback_rel_to_image (example_lib False True figure_doc example_rels) figure_zip)
        (extract_images_from_docx figure_zip) figure_paragraph) = [ImageRef (ascii ''word/media/A.png'')]
   \<and> length (findall w_drawing figure_paragraph) = 3"
proof -
  let ?l = "example_lib False True figure_doc example_rels"
  have h: "read_xml ?l figure_zip document_xml_name = Inr figure_doc"
    by (simp add: eval_defs example_defs)
  note T = at_most_one_image_per_paragraph [OF h]
  have a: "List.map_filter (anchor_path (fallback_rel_to_image ?l figure_zip) (extract_images_from_docx figure_zip))
     (findall w_drawing figure_paragraph) = [ascii ''word/media/A.png'', ascii ''word/media/B.png'']"
    by (simp add: eval_defs example_defs)
  have n: "length (findall w_drawing figure_paragraph) = 3"
    by (simp add: eval_defs example_defs)
  from conjunct2 [OF T, rule_format, of "fallback_rel_to_image ?l figure_zip"
      "extract_images_from_docx figure_zip" figure_paragraph] a n
  show ?thesis
    by simp
qed

text \<open>
  Claim C6. When reading the relationships part raises (the part is missing, or it
  is malformed) and the main document part is well-formed, extraction succeeds: the
  relationship table is empty and the result is the \<open>Text\<close> elements of the paragraphs
  with non-empty trimmed text, in order, with the media store.
\<close>

theorem missing_relationships_not_fatal:
  assumes "read_xml l z rels_xml_name = Inl e"
    and "read_xml l z document_xml_name = Inr doc_root"
  shows "fallback_rel_to_image l z = Map.empty
     \<and> parse_docx_structure l z =
         Inr (concat (map paragraph_text (findall w_p doc_root)), extract_images_from_docx z)"
proof -
  from assms(1) have "fallback_rel_to_image l z = Map.empty"
    by (simp add: fallback_rel_to_image_def)
  with missing_relationships_parse [OF assms] show ?thesis
    by simp
qed

theorem missing_relationships_not_fatal_witness:
  "read_xml (example_lib True True hello_doc example_rels) badrels_zip rels_xml_name = Inl ParseError
   \<and> parse_docx_structure (example_lib True True hello_doc example_rels) badrels_zip =
       Inr ([Text (ascii ''Hello'')], extract_images_from_docx badrels_zip)"
proof -
  let ?l = "example_lib True True hello_doc example_rels"
  have r: "read_xml ?l badrels_zip rels_xml_name = Inl ParseError"
    by (simp add: eval_defs example_defs)
  have h: "read_xml ?l badrels_zip document_xml_name = Inr hello_doc"
    by (simp add: eval_defs example_defs)
  have e: "concat (map paragraph_text (findall w_p hello_doc)) = [Text (ascii ''Hello'')]"
    by (simp add: eval_defs example_defs)
  from missing_relationships_not_fatal [OF r h] r e show ?thesis
    by simp
qed

text \<open>
  Claim C7 fails on the code. With a credential present and the body
  \<^verbatim>\<open>{"choices": [{"message": {"content": null}}]}\<close>, \<open>analyze_image_with_api\<close> returns
  \<open>None\<close>, which is not a \<open>str\<close>; \<open>convert_docx_to_txt\<close> then raises \<open>TypeError\<close> when it
  joins the lines, after it has opened (and so emptied) the output file.
\<close>

theorem null_content_aborts_conversion:
  "analyze_image_with_api null_provider [3] (ascii ''A.png'') = PyNone
   \<and> convert_docx_to_txt (example_lib True True title_doc example_rels)
        (analyze_image_with_api null_provider)
        (ascii ''a.docx'') (ascii ''a.txt'') [ascii ''a.docx'' \<mapsto> Archive title_zip] =
      ([ascii ''a.docx'' \<mapsto> Archive title_zip, ascii ''a.txt'' \<mapsto> Plain []], Some TypeError)"
proof -
  have a: "analyze_image_with_api null_provider [3] (ascii ''A.png'') = PyNone"
    by (simp add: analyze_image_with_api_def first_choice_def null_provider_def null_content_def ascii_def)
  have j: "join_lines (result_lines (render (analyze_image_with_api null_provider)
      (extract_images_from_docx title_zip)
      [Text (ascii ''Title''), ImageRef (ascii ''word/media/A.png''), Text (ascii ''Body text'')])) =
     Inl TypeError"
    unfolding title_lines a by (simp add: join_lines_def)
  show ?thesis
    by (simp add: a convert_docx_to_txt_def title_elements j)
qed

text \<open>
  Claim C8. Whenever the primary strategy returns an element sequence, the fallback
  strategy returns the same sequence from the same package and media store; so the
  function returns the same pair with and without python-docx.
\<close>

theorem strategies_agree:
  assumes "primary_strategy l z images = Inr els"
  shows "fallback_strategy l z images [] = Inr els
     \<and> (images = extract_images_from_docx z \<longrightarrow>
          parse_docx_structure (l\<lparr>HAS_DOCX := True\<rparr>) z = Inr (els, images)
        \<and> parse_docx_structure (l\<lparr>HAS_DOCX := False\<rparr>) z = Inr (els, images))"
proof -
  from primary_strategy_Inr [OF assms] obtain doc_root where
    d: "read_xml l z document_xml_name = Inr doc_root" and
    e: "els = concat (map (paragraph_elements (fallback_rel_to_image l z) images) (findall w_p doc_root))"
    by blast
  from fallback_strategy_eq [OF d, of images "[]"] e
  have f: "fallback_strategy l z images [] = Inr els" by simp
  have d': "read_xml (l\<lparr>HAS_DOCX := b\<rparr>) z document_xml_name = Inr doc_root" for b
    using d by (simp add: read_xml_HAS_DOCX)
  have "parse_docx_structure (l\<lparr>HAS_DOCX := b\<rparr>) z = Inr (els, images)"
    if "images = extract_images_from_docx z" for b
    using parse_docx_structure_eq [OF d', of b] e that
    by (simp add: fallback_rel_to_image_HAS_DOCX)
  with f show ?thesis by blast
qed

theorem strategies_agree_witness:
  "primary_strategy (example_lib True True figure_doc example_rels) figure_zip
     (extract_images_from_docx figure_zip) =
     Inr [Text (ascii ''Fig 1''), ImageRef (ascii ''word/media/A.png''), Text (ascii ''Tail'')]
   \<and> fallback_strategy (example_lib True True figure_doc example_rels) figure_zip
     (extract_images_from_docx figure_zip) [] =
     Inr [Text (ascii ''Fig 1''), ImageRef (ascii ''word/media/A.png''), Text (ascii ''Tail'')]"
proof -
  let ?l = "example_lib True True figure_doc example_rels"
  have h: "primary_strategy ?l figure_zip (extract_images_from_docx figure_zip) =
     Inr [Text (ascii ''Fig 1''), ImageRef (ascii ''word/media/A.png''), Text (ascii ''Tail'')]"
    by (simp add: primary_defs eval_defs example_defs)
  from strategies_agree [OF h] h show ?thesis
    by blast
qed

text \<open>
  Claim C9. Running the conversion again on the file system the first run left,
  with the same provider and an output path other than the input path (so that the
  input is unchanged), leaves the same file system and the same outcome: the output
  file is written with the same content.
\<close>

theorem conversion_idempotent:
  assumes "docx_path \<noteq> output_path"
  shows "convert_docx_to_txt l describe docx_path output_path
           (fst (convert_docx_to_txt l describe docx_path output_path fs)) =
         convert_docx_to_txt l describe docx_path output_path fs"
  using assms
  by (simp add: convert_docx_to_txt_def split: option.splits file_content.splits sum.splits prod.splits)

theorem conversion_idempotent_witness:
  "ascii ''a.docx'' \<noteq> ascii ''a.txt''
   \<and> convert_docx_to_txt (example_lib True True title_doc example_rels) desc_stub
       (ascii ''a.docx'') (ascii ''a.txt'')
       (fst (convert_docx_to_txt (example_lib True True title_doc example_rels) desc_stub
          (ascii ''a.docx'') (ascii ''a.txt'') [ascii ''a.docx'' \<mapsto> Archive title_zip])) =
     convert_docx_to_txt (example_lib True True title_doc example_rels) desc_stub
       (ascii ''a.docx'') (ascii ''a.txt'') [ascii ''a.docx'' \<mapsto> Archive title_zip]"
proof -
  have h: "ascii ''a.docx'' \<noteq> ascii ''a.txt''"
    by (simp add: ascii_def)
  from conversion_idempotent [OF h] h show ?thesis
    by blast
qed

text \<open>
  Claim C10. Every image element the extractor returns, on either strategy, has its
  path in the media store returned with it; so the renderer finds every one of them
  and invokes the provider once per image element: it never takes the "not found"
  branch.
\<close>

theorem image_elements_in_media_store:
  assumes "parse_docx_structure l z = Inr (els, images)"
  shows "(\<forall>path. ImageRef path \<in> set els \<longrightarrow> images path \<noteq> None)
     \<and> length (calls (render describe images els)) = length (filter is_image els)"
proof -
  from parse_docx_structure_Inr [OF assms] obtain doc_root where
    d: "read_xml l z document_xml_name = Inr doc_root" by blast
  from parse_docx_structure_eq [OF d] assms have
    e: "els = concat (map (paragraph_elements (fallback_rel_to_image l z) images) (findall w_p doc_root))"
    by simp
  have m: "\<forall>path. ImageRef path \<in> set els \<longrightarrow> images path \<noteq> None"
    unfolding e by (auto dest: ImageRef_in_paragraph_elements)
  from calls_fold_found [OF m] m show ?thesis
    by (simp add: render_def)
qed

theorem image_elements_in_media_store_witness:
  "extract_images_from_docx title_zip (ascii ''word/media/A.png'') \<noteq> None
   \<and> length (calls (render desc_stub (extract_images_from_docx title_zip)
        [Text (ascii ''Title''), ImageRef (ascii ''word/media/A.png''), Text (ascii ''Body text'')])) = 1"
proof -
  note T = image_elements_in_media_store [OF title_elements [of True True], of desc_stub]
  from conjunct1 [OF T, rule_format, of "ascii ''word/media/A.png''"] conjunct2 [OF T]
  show ?thesis
    by (simp add: is_image_def)
qed

end
